theory Spec2Isabelle
  imports Complex_Main "HOL-Library.Word" "HOL-Library.AList"
begin

unbundle bit_operations_syntax

section \<open>Errors, status and limits (pkg/job: errors.go, status.go)\<close>

text \<open>
  An error value of the Go code is modelled by the sentinel that \<open>errors.Is\<close> finds in it;
  the message text is not modelled. \<open>ErrOS\<close> stands for an error of the operating system
  that is returned wrapped in a message only, without a sentinel of the package.
\<close>

datatype errno = EBUSY | EOTHER

datatype error =
    ErrCgroup
  | ErrCommand
  | ErrJobNotFound
  | ErrJobStop
  | ErrShutdown
  | ErrUnauthorized
  | ErrOS errno

definition NotTerminated :: int where
  "NotTerminated = -2"

definition TerminatedBySignal :: int where
  "TerminatedBySignal = -1"

text \<open>
  A \<open>time.Time\<close> is a number of ticks since the zero time, so that the zero value of
  the type is \<open>0\<close>. The wall clock (\<open>time.Now()\<close>) is an input of every operation
  that reads it.
\<close>

type_synonym time = nat

definition zeroTime :: time where
  "zeroTime = 0"

record Status =
  ID :: string
  Command :: string
  Args :: "string list"
  Started :: time
  Running :: bool
  ExitCode :: int
  Stopped :: time

text \<open>
  A finite or special \<open>float64\<close>. \<open>Finite m e\<close> is the number \<open>m * 2 ^ e\<close>; every
  finite value of the type has such a form with \<open>\<bar>m\<bar> < 2 ^ 53\<close> and \<open>- 1074 \<le> e\<close>.
\<close>

datatype float64 = Finite int int | PosInf | NegInf | NaN

record Limits =
  CPUs :: float64
  MemoryKiB :: "64 word"
  IO :: "string list"

section \<open>Library functions of Go used by the package\<close>

text \<open>\<open>strconv.FormatUint(n, 10)\<close> and the verb \<open>%d\<close> of \<open>fmt.Sprintf\<close>.\<close>

definition digit :: "nat \<Rightarrow> char" where
  "digit d = ''0123456789'' ! d"

function FormatUint :: "nat \<Rightarrow> string" where
  "FormatUint n = (if n < 10 then [digit n] else FormatUint (n div 10) @ [digit (n mod 10)])"
  by pat_completeness auto
termination
  by (relation "measure id") auto

declare FormatUint.simps [simp del]

definition FormatInt :: "int \<Rightarrow> string" where
  "FormatInt i = (if i < 0 then ''-'' @ FormatUint (nat (- i)) else FormatUint (nat i))"

text \<open>
  \<open>filepath.Join(dir, name)\<close> for a clean \<open>dir\<close> and a single path element \<open>name\<close>,
  which is every use of it in the package.
\<close>

definition Join :: "string \<Rightarrow> string \<Rightarrow> string" where
  "Join dir name = dir @ ''/'' @ name"

text \<open>
  \<open>syscall.WaitStatus\<close> on Linux, and \<open>os.ProcessState.ExitCode\<close>, which is \<open>-1\<close> for a nil
  state and for a process that did not exit by itself.
\<close>

definition Exited :: "32 word \<Rightarrow> bool" where
  "Exited ws = (ws AND 0x7F = 0)"

definition ExitStatus :: "32 word \<Rightarrow> int" where
  "ExitStatus ws = (if \<not> Exited ws then - 1 else uint (drop_bit 8 ws AND 0xFF))"

definition ProcessState_ExitCode :: "32 word option \<Rightarrow> int" where
  "ProcessState_ExitCode p = (case p of None \<Rightarrow> - 1 | Some ws \<Rightarrow> ExitStatus ws)"

text \<open>
  The three outcomes of \<open>exec.Cmd.Wait\<close> that \<open>job.wait\<close> tells apart: nil, an
  \<open>*exec.ExitError\<close> (with its process state), and any other error.
\<close>

datatype wait_result = WaitNil | WaitExitError "32 word option" | WaitOtherError

text \<open>
  The outcomes of \<open>os.Process.Kill\<close> that \<open>job.stop\<close> tells apart: nil,
  \<open>os.ErrProcessDone\<close>, and any other error.
\<close>

datatype kill_result = KillNil | KillProcessDone | KillError

text \<open>
  The product \<open>x * 100000\<close> of \<open>float64\<close>, rounded to the nearest value of the type
  with ties to even (53 bits of mantissa, least exponent \<open>- 1074\<close>, overflow to infinity),
  and the conversion \<open>int(x)\<close>, which truncates towards zero. Go leaves the conversion of
  a value outside the range of \<open>int\<close> to the implementation; the model returns what
  amd64 does, the least value of the type.
\<close>

function bitlen :: "nat \<Rightarrow> nat" where
  "bitlen n = (if n = 0 then 0 else Suc (bitlen (n div 2)))"
  by pat_completeness auto
termination
  by (relation "measure id") auto

declare bitlen.simps [simp del]

definition round_shift :: "nat \<Rightarrow> nat \<Rightarrow> nat" where
  "round_shift p k =
     (let q = p div 2 ^ k; r = p mod 2 ^ k; half = 2 ^ (k - 1)
      in if k = 0 then p
         else if half < r \<or> (r = half \<and> odd q) then q + 1 else q)"

definition round_f64 :: "bool \<Rightarrow> nat \<Rightarrow> int \<Rightarrow> float64" where
  "round_f64 neg p e =
     (let k = nat (max (int (bitlen p) - 53) (- 1074 - e));
          q = round_shift p k;
          e' = e + int k
      in if 1024 < int (bitlen q) + e' then (if neg then NegInf else PosInf)
         else Finite (if neg then - int q else int q) e')"

definition mul_100000 :: "float64 \<Rightarrow> float64" where
  "mul_100000 x =
     (case x of
        Finite m e \<Rightarrow> round_f64 (m < 0) (nat \<bar>m\<bar> * 100000) e
      | PosInf \<Rightarrow> PosInf
      | NegInf \<Rightarrow> NegInf
      | NaN \<Rightarrow> NaN)"

definition gt_zero :: "float64 \<Rightarrow> bool" where
  "gt_zero x = (case x of Finite m e \<Rightarrow> 0 < m | PosInf \<Rightarrow> True | NegInf \<Rightarrow> False | NaN \<Rightarrow> False)"

definition trunc_f64 :: "float64 \<Rightarrow> int option" where
  "trunc_f64 x =
     (case x of
        Finite m e \<Rightarrow>
          Some (if 0 \<le> e then m * 2 ^ nat e
                else if 0 \<le> m then m div 2 ^ nat (- e)
                else - ((- m) div 2 ^ nat (- e)))
      | _ \<Rightarrow> None)"

text \<open>The number that a finite \<open>float64\<close> stands for.\<close>

definition valof :: "float64 \<Rightarrow> real" where
  "valof x = (case x of Finite m e \<Rightarrow> real_of_int m * 2 powr real_of_int e | _ \<Rightarrow> 0)"

definition int_of_float64 :: "float64 \<Rightarrow> int" where
  "int_of_float64 x =
     (case trunc_f64 x of
        Some v \<Rightarrow> if - (2 ^ 63) \<le> v \<and> v < 2 ^ 63 then v else - (2 ^ 63)
      | None \<Rightarrow> - (2 ^ 63))"

section \<open>The operating system as seen by the package\<close>

text \<open>
  The file system is a set of directories and the sequence of the calls of \<open>os.WriteFile\<close>
  that succeeded, oldest first; \<open>signals\<close> is the sequence of the calls of
  \<open>Process.Kill\<close>, each by the id of the job whose process it signals. Which calls fail
  is decided by the remaining fields:
  \<open>busy p\<close> is the number of coming \<open>os.Remove\<close> calls on \<open>p\<close> that fail with
  \<open>EBUSY\<close> (children still being torn down), the others tell for a path or a command whether
  the call fails for another reason.
\<close>

record world =
  dirs :: "string set"
  writes :: "(string \<times> string) list"
  signals :: "string list"
  mkdir_fails :: "string \<Rightarrow> bool"
  write_fails :: "string \<Rightarrow> string \<Rightarrow> bool"
  open_fails :: "string \<Rightarrow> bool"
  stat_fails :: "string \<Rightarrow> bool"
  busy :: "string \<Rightarrow> nat"
  remove_fails :: "string \<Rightarrow> bool"
  start_fails :: "string \<Rightarrow> string list \<Rightarrow> bool"

definition Mkdir :: "string \<Rightarrow> world \<Rightarrow> error option \<times> world" where
  "Mkdir p w =
     (if p \<in> dirs w \<or> mkdir_fails w p then (Some (ErrOS EOTHER), w)
      else (None, w\<lparr>dirs := insert p (dirs w)\<rparr>))"

definition WriteFile :: "string \<Rightarrow> string \<Rightarrow> world \<Rightarrow> error option \<times> world" where
  "WriteFile p content w =
     (if write_fails w p content then (Some (ErrOS EOTHER), w)
      else (None, w\<lparr>writes := writes w @ [(p, content)]\<rparr>))"

definition Remove :: "string \<Rightarrow> world \<Rightarrow> error option \<times> world" where
  "Remove p w =
     (if 0 < busy w p then (Some (ErrOS EBUSY), w\<lparr>busy := (busy w)(p := busy w p - 1)\<rparr>)
      else if remove_fails w p then (Some (ErrOS EOTHER), w)
      else (None, w\<lparr>dirs := dirs w - {p}\<rparr>))"

section \<open>Cgroups (pkg/job/controller.go)\<close>

definition writeCgroupFile :: "string \<Rightarrow> string \<Rightarrow> string \<Rightarrow> world \<Rightarrow> error option \<times> world" where
  "writeCgroupFile jobCgroup filename content w =
     (case WriteFile (Join jobCgroup filename) content w of
        (Some e, w') \<Rightarrow> (Some ErrCgroup, w')
      | (None, w') \<Rightarrow> (None, w'))"

definition deleteCgroup :: "string \<Rightarrow> world \<Rightarrow> error option \<times> world" where
  "deleteCgroup cg w =
     (if cg \<notin> dirs w then (None, w)
      else if stat_fails w cg then (Some (ErrOS EOTHER), w)
      else Remove cg w)"

definition deleteCgroupOnErr :: "string \<Rightarrow> error option \<Rightarrow> world \<Rightarrow> world" where
  "deleteCgroupOnErr cg err w = (if err = None then w else snd (deleteCgroup cg w))"

definition newTelejobCgroup :: "string \<Rightarrow> world \<Rightarrow> error option \<times> world" where
  "newTelejobCgroup tc w =
     (case Mkdir tc w of
        (Some e, w') \<Rightarrow> (Some e, w')
      | (None, w') \<Rightarrow> WriteFile (Join tc ''cgroup.subtree_control'') ''+cpu +io +memory'' w')"

text \<open>The loop of \<open>newJobCgroup\<close> over \<open>limits.IO\<close>; it returns at the first write that fails.\<close>

fun writeIOLimits :: "string \<Rightarrow> string list \<Rightarrow> world \<Rightarrow> error option \<times> world" where
  "writeIOLimits cg [] w = (None, w)"
| "writeIOLimits cg (ioLimit # rest) w =
     (case writeCgroupFile cg ''io.max'' ioLimit w of
        (Some e, w') \<Rightarrow> (Some e, w')
      | (None, w') \<Rightarrow> writeIOLimits cg rest w')"

definition cpuContent :: "Limits \<Rightarrow> string" where
  "cpuContent lims = FormatInt (int_of_float64 (mul_100000 (CPUs lims))) @ [CHR 0x0A]"

definition memoryContent :: "Limits \<Rightarrow> string" where
  "memoryContent lims = FormatUint (unat (MemoryKiB lims * 1024)) @ [CHR 0x0A]"

text \<open>
  The body of \<open>newJobCgroup\<close> after the directory was made; the deferred
  \<open>deleteCgroupOnErr\<close> runs on its result.
\<close>

definition writeLimits :: "string \<Rightarrow> Limits \<Rightarrow> world \<Rightarrow> error option \<times> world" where
  "writeLimits cg lims w =
     (case (if gt_zero (CPUs lims) then writeCgroupFile cg ''cpu.max'' (cpuContent lims) w
            else (None, w)) of
        (Some e, w1) \<Rightarrow> (Some e, w1)
      | (None, w1) \<Rightarrow>
          (case (if 0 < MemoryKiB lims then writeCgroupFile cg ''memory.max'' (memoryContent lims) w1
                 else (None, w1)) of
             (Some e, w2) \<Rightarrow> (Some e, w2)
           | (None, w2) \<Rightarrow> writeIOLimits cg (IO lims) w2))"

definition newJobCgroup :: "string \<Rightarrow> Limits \<Rightarrow> world \<Rightarrow> error option \<times> world" where
  "newJobCgroup cg lims w =
     (case Mkdir cg w of
        (Some e, w0) \<Rightarrow> (Some e, w0)
      | (None, w0) \<Rightarrow>
          (case writeLimits cg lims w0 of
             (err, w1) \<Rightarrow> (err, deleteCgroupOnErr cg err w1)))"

text \<open>
  The loop of \<open>deleteCgroupWithRetry\<close>, by the number of attempts left. The pause between
  two attempts is not modelled.
\<close>

fun deleteCgroupWithRetry :: "string \<Rightarrow> string \<Rightarrow> nat \<Rightarrow> world \<Rightarrow> world" where
  "deleteCgroupWithRetry cg jid 0 w = w"
| "deleteCgroupWithRetry cg jid (Suc retries) w =
     (case deleteCgroup cg w of
        (None, w') \<Rightarrow> w'
      | (Some e, w') \<Rightarrow> if e \<noteq> ErrOS EBUSY then w' else deleteCgroupWithRetry cg jid retries w')"

section \<open>Jobs (pkg/job/job.go)\<close>

record Cmd =
  Path :: string
  CmdArgs :: "string list"

record job =
  status :: Status
  cmd :: Cmd
  owner :: string
  cgroup :: string

definition newStartedCmd ::
  "string \<Rightarrow> string \<Rightarrow> string list \<Rightarrow> Limits \<Rightarrow> string \<Rightarrow> world \<Rightarrow> (error + Cmd) \<times> world" where
  "newStartedCmd jid command args lims cg w =
     (case newJobCgroup cg lims w of
        (Some e, w1) \<Rightarrow> (Inl e, w1)
      | (None, w1) \<Rightarrow>
          if cg \<notin> dirs w1 \<or> open_fails w1 cg then (Inl (ErrOS EOTHER), w1)
          else if start_fails w1 command args then (Inl ErrCommand, snd (deleteCgroup cg w1))
          else (Inr \<lparr>Path = command, CmdArgs = args\<rparr>, w1))"

definition newJob ::
  "string \<Rightarrow> string \<Rightarrow> string \<Rightarrow> string list \<Rightarrow> Limits \<Rightarrow> string \<Rightarrow> time \<Rightarrow> world
     \<Rightarrow> (error + job) \<times> world" where
  "newJob own jid command args lims cg now w =
     (case newStartedCmd jid command args lims cg w of
        (Inl e, w') \<Rightarrow> (Inl e, w')
      | (Inr c, w') \<Rightarrow>
          (Inr \<lparr>status = \<lparr>ID = jid, Command = command, Args = args, Started = now,
                            Running = True, ExitCode = NotTerminated, Stopped = zeroTime\<rparr>,
                 cmd = c, owner = own, cgroup = cg\<rparr>, w'))"

definition isRunning :: "job \<Rightarrow> bool" where
  "isRunning j = Running (status j)"

definition getStatus :: "job \<Rightarrow> Status" where
  "getStatus j = status j"

text \<open>
  \<open>stop\<close> reads the job and signals the process; \<open>k\<close> is what \<open>Process.Kill\<close>
  returns if it is called.
\<close>

definition Kill :: "kill_result \<Rightarrow> job \<Rightarrow> world \<Rightarrow> kill_result \<times> world" where
  "Kill k j w = (k, w\<lparr>signals := signals w @ [ID (status j)]\<rparr>)"

definition stop :: "kill_result \<Rightarrow> job \<Rightarrow> world \<Rightarrow> error option \<times> world" where
  "stop k j w =
     (if \<not> Running (status j) then (None, w)
      else case Kill k j w of
             (KillNil, w') \<Rightarrow> (None, w')
           | (KillProcessDone, w') \<Rightarrow> (None, w')
           | (KillError, w') \<Rightarrow> (Some ErrJobStop, w'))"

text \<open>
  \<open>wait\<close>, run once per job by its reaper: \<open>waitErr\<close> is what \<open>cmd.Wait\<close> returned and
  \<open>now\<close> the clock at that moment.
\<close>

definition wait :: "wait_result \<Rightarrow> time \<Rightarrow> job \<Rightarrow> world \<Rightarrow> job \<times> world" where
  "wait waitErr now j w =
     (let s1 = (status j)\<lparr>Running := False, Stopped := now\<rparr>;
          s2 = (case waitErr of
                  WaitNil \<Rightarrow> s1\<lparr>ExitCode := 0\<rparr>
                | WaitExitError ps \<Rightarrow> s1\<lparr>ExitCode := ProcessState_ExitCode ps\<rparr>
                | WaitOtherError \<Rightarrow> s1);
          w1 = snd (writeCgroupFile (cgroup j) ''cgroup.kill'' ''1'' w);
          w2 = deleteCgroupWithRetry (cgroup j) (ID s2) 3 w1
      in (j\<lparr>status := s2\<rparr>, w2))"

section \<open>The controller (pkg/job/controller.go)\<close>

text \<open>
  The map \<open>jobs\<close> is an association list with unique keys (\<open>AList.update\<close> is the
  assignment \<open>c.jobs[id] = job\<close>); its order is one of the orders in which Go may iterate
  over the map. The mutex and the wait group are not fields of the model: every operation
  below runs as a whole, and \<open>StopAll\<close> contains what \<open>wg.Wait()\<close> waits for.
\<close>

record Controller =
  jobs :: "(string \<times> job) list"
  maxID :: "64 word"
  shutDown :: bool
  telejobCgroup :: string
  limits :: Limits

datatype Option = WithCgroup string | WithLimits Limits

definition applyOption :: "Option \<Rightarrow> Controller \<Rightarrow> Controller" where
  "applyOption opt c =
     (case opt of WithCgroup cg \<Rightarrow> c\<lparr>telejobCgroup := cg\<rparr> | WithLimits lims \<Rightarrow> c\<lparr>limits := lims\<rparr>)"

definition NewController :: "Option list \<Rightarrow> world \<Rightarrow> (error + Controller) \<times> world" where
  "NewController opts w =
     (let c = fold applyOption opts
                \<lparr>jobs = [], maxID = 0, shutDown = False,
                 telejobCgroup = ''/sys/fs/cgroup/telejob'',
                 limits = \<lparr>CPUs = Finite 0 0, MemoryKiB = 0, IO = []\<rparr>\<rparr>
      in case newTelejobCgroup (telejobCgroup c) w of
           (Some e, w') \<Rightarrow> (Inl e, w')
         | (None, w') \<Rightarrow> (Inr c, w'))"

definition add :: "string \<Rightarrow> job \<Rightarrow> Controller \<Rightarrow> Controller" where
  "add jid j c = c\<lparr>jobs := AList.update jid j (jobs c)\<rparr>"

definition get :: "string \<Rightarrow> string \<Rightarrow> Controller \<Rightarrow> error + job" where
  "get own jid c =
     (case map_of (jobs c) jid of
        None \<Rightarrow> Inl ErrJobNotFound
      | Some j \<Rightarrow> if owner j \<noteq> own then Inl ErrUnauthorized else Inr j)"

definition isShutDown :: "Controller \<Rightarrow> bool" where
  "isShutDown c = shutDown c"

text \<open>
  \<open>Start\<close>. The reaper that it launches for the new job is the event \<open>Reap\<close> below: it
  runs when the child has terminated.
\<close>

definition Start ::
  "string \<Rightarrow> string \<Rightarrow> string list \<Rightarrow> time \<Rightarrow> Controller \<Rightarrow> world
     \<Rightarrow> (error + string) \<times> Controller \<times> world" where
  "Start own command args now c w =
     (if length command = 0 then (Inl ErrCommand, c, w)
      else if isShutDown c then (Inl ErrShutdown, c, w)
      else
        let c1 = c\<lparr>maxID := maxID c + 1\<rparr>;
            jid = FormatUint (unat (maxID c1));
            cg = Join (telejobCgroup c1) jid
        in case newJob own jid command args (limits c1) cg now w of
             (Inl e, w') \<Rightarrow> (Inl e, c1, w')
           | (Inr j, w') \<Rightarrow> (Inr jid, add jid j c1, w'))"

definition Stop ::
  "string \<Rightarrow> string \<Rightarrow> kill_result \<Rightarrow> Controller \<Rightarrow> world \<Rightarrow> error option \<times> world" where
  "Stop own jid k c w = (case get own jid c of Inl e \<Rightarrow> (Some e, w) | Inr j \<Rightarrow> stop k j w)"

definition StatusOf :: "string \<Rightarrow> string \<Rightarrow> Controller \<Rightarrow> error + Status" where
  "StatusOf own jid c = (case get own jid c of Inl e \<Rightarrow> Inl e | Inr j \<Rightarrow> Inr (getStatus j))"

text \<open>
  The reaper of the job \<open>jid\<close> runs \<open>wait\<close> on it, once: a job that is not in the map or
  was reaped already has no reaper left.
\<close>

definition Reap :: "string \<Rightarrow> wait_result \<Rightarrow> time \<Rightarrow> Controller \<Rightarrow> world \<Rightarrow> Controller \<times> world" where
  "Reap jid waitErr now c w =
     (case map_of (jobs c) jid of
        None \<Rightarrow> (c, w)
      | Some j \<Rightarrow>
          if \<not> Running (status j) then (c, w)
          else let (j', w') = wait waitErr now j w
               in (c\<lparr>jobs := AList.update jid j' (jobs c)\<rparr>, w'))"

text \<open>The first loop of \<open>StopAll\<close>: stop every running job and collect the errors.\<close>

fun stopJobs ::
  "(string \<Rightarrow> kill_result) \<Rightarrow> (string \<times> job) list \<Rightarrow> world \<Rightarrow> error list \<times> world" where
  "stopJobs kills [] w = ([], w)"
| "stopJobs kills ((jid, j) # rest) w =
     (if isRunning j
      then (case stop (kills jid) j w of
              (Some e, w') \<Rightarrow> (case stopJobs kills rest w' of (errs, w'') \<Rightarrow> (e # errs, w''))
            | (None, w') \<Rightarrow> stopJobs kills rest w')
      else stopJobs kills rest w)"

text \<open>What \<open>wg.Wait()\<close> waits for: the reaper of every job that is still running.\<close>

fun reapAll ::
  "(string \<Rightarrow> wait_result) \<Rightarrow> time \<Rightarrow> string list \<Rightarrow> Controller \<Rightarrow> world \<Rightarrow> Controller \<times> world" where
  "reapAll waits now [] c w = (c, w)"
| "reapAll waits now (jid # rest) c w =
     (case Reap jid (waits jid) now c w of (c', w') \<Rightarrow> reapAll waits now rest c' w')"

text \<open>
  \<open>StopAll\<close>, for the runs in which every child terminates, so that \<open>wg.Wait()\<close> returns:
  \<open>kills\<close> and \<open>waits\<close> give, for each job, what \<open>Process.Kill\<close> and \<open>cmd.Wait\<close>
  return. The result is the list of the errors joined (empty for nil).
\<close>

definition StopAll ::
  "(string \<Rightarrow> kill_result) \<Rightarrow> (string \<Rightarrow> wait_result) \<Rightarrow> time \<Rightarrow> Controller \<Rightarrow> world
     \<Rightarrow> error list \<times> Controller \<times> world" where
  "StopAll kills waits now c w =
     (if shutDown c then ([], c, w)
      else
        let c1 = c\<lparr>shutDown := True\<rparr>;
            (errs, w1) = stopJobs kills (jobs c1) w;
            (c2, w2) = reapAll waits now (map fst (jobs c1)) c1 w1;
            (derr, w3) = deleteCgroup (telejobCgroup c2) w2;
            errs' = (case derr of Some e \<Rightarrow> errs @ [e] | None \<Rightarrow> errs)
        in (errs', c2, w3))"

text \<open>
  The calls that reach a controller, each with what the operating system answers during
  the call, and the state after a sequence of them.
\<close>

datatype event =
    EStart string string "string list" time
  | EStop string string kill_result
  | EStatus string string
  | EStopAll "string \<Rightarrow> kill_result" "string \<Rightarrow> wait_result" time
  | EReap string wait_result time

fun step :: "event \<Rightarrow> Controller \<times> world \<Rightarrow> Controller \<times> world" where
  "step (EStart own command args now) (c, w) = snd (Start own command args now c w)"
| "step (EStop own jid k) (c, w) = (c, snd (Stop own jid k c w))"
| "step (EStatus own jid) (c, w) = (c, w)"
| "step (EStopAll kills waits now) (c, w) = snd (StopAll kills waits now c w)"
| "step (EReap jid waitErr now) (c, w) = Reap jid waitErr now c w"

definition run :: "event list \<Rightarrow> Controller \<times> world \<Rightarrow> Controller \<times> world" where
  "run evs cw = fold step evs cw"

section \<open>The gRPC service (pkg/telejob/service.go)\<close>

datatype code = Unimplemented | InvalidArgument | NotFound | PermissionDenied | Internal

record LogsRequest =
  Id :: string
  Follow :: bool

text \<open>
  \<open>Service.Logs\<close> ignores the request and the stream: it sends nothing and returns a
  status error. The result is the list of chunks sent on the stream and the error.
\<close>

definition Logs :: "Controller \<Rightarrow> string \<Rightarrow> LogsRequest \<Rightarrow> string list \<times> code option" where
  "Logs c own req = ([], Some Unimplemented)"

section \<open>Concrete systems for the examples\<close>

text \<open>
  A machine with an empty cgroup tree on which no call fails, and one on which the
  command \<open>NOPE\<close> does not exist.
\<close>

definition quietWorld :: world where
  "quietWorld =
     \<lparr>dirs = {}, writes = [], signals = [], mkdir_fails = (\<lambda>p. False), write_fails = (\<lambda>p s. False),
      open_fails = (\<lambda>p. False), stat_fails = (\<lambda>p. False), busy = (\<lambda>p. 0),
      remove_fails = (\<lambda>p. False), start_fails = (\<lambda>command args. False)\<rparr>"

definition nopeWorld :: world where
  "nopeWorld = quietWorld\<lparr>start_fails := (\<lambda>command args. command = ''NOPE'')\<rparr>"

text \<open>The controller that \<open>NewController\<close> returns for the parent cgroup \<open>/t\<close>.\<close>

definition freshController :: Controller where
  "freshController =
     \<lparr>jobs = [], maxID = 0, shutDown = False, telejobCgroup = ''/t'',
      limits = \<lparr>CPUs = Finite 0 0, MemoryKiB = 0, IO = []\<rparr>\<rparr>"

text \<open>
  A controller with the limits of the tests and one more for the block devices, and a
  machine on which the write to \<open>io.max\<close> of the first job fails.
\<close>

definition limitsController :: Controller where
  "limitsController =
     freshController\<lparr>limits := \<lparr>CPUs = Finite 1 (- 1), MemoryKiB = 1000,
                                   IO = [''252:1 rbps=1000000'']\<rparr>\<rparr>"

definition ioFailWorld :: world where
  "ioFailWorld = quietWorld\<lparr>write_fails := (\<lambda>p s. p = ''/t/1/io.max'')\<rparr>"

text \<open>The controller and the machine after the first job was started.\<close>

definition oneJob :: "Controller \<times> world" where
  "oneJob = snd (Start ''alice'' ''sleep'' [''100''] 5 freshController quietWorld)"

section \<open>Evaluation lemmas\<close>

lemma FormatUint_small: "n < 10 \<Longrightarrow> FormatUint n = [digit n]"
  by (simp add: FormatUint.simps)

lemma digit_simps:
  "digit 0 = CHR ''0''" "digit (Suc 0) = CHR ''1''" "digit 1 = CHR ''1''"
  "digit 2 = CHR ''2''" "digit 3 = CHR ''3''" "digit 4 = CHR ''4''" "digit 5 = CHR ''5''"
  "digit 6 = CHR ''6''" "digit 7 = CHR ''7''" "digit 8 = CHR ''8''" "digit 9 = CHR ''9''"
  by (simp_all add: digit_def)

lemmas start_defs = Start_def isShutDown_def newJob_def newStartedCmd_def
  newJobCgroup_def Mkdir_def writeLimits_def gt_zero_def deleteCgroupOnErr_def
  deleteCgroup_def Remove_def Join_def add_def Let_def FormatUint_small digit_simps

lemma wait_fst:
  "fst (wait r now j w) =
     j\<lparr>status :=
         (case r of
            WaitNil \<Rightarrow> (status j)\<lparr>Running := False, Stopped := now, ExitCode := 0\<rparr>
          | WaitExitError ps \<Rightarrow>
              (status j)\<lparr>Running := False, Stopped := now, ExitCode := ProcessState_ExitCode ps\<rparr>
          | WaitOtherError \<Rightarrow> (status j)\<lparr>Running := False, Stopped := now\<rparr>)\<rparr>"
  by (simp add: wait_def Let_def split: wait_result.splits)

section \<open>The status of a reaped job\<close>

text \<open>
  Claim C2 (the status invariant: running iff exit code \<open>-2\<close> iff stopped is the zero time)
  does not hold of the code. When \<open>cmd.Wait\<close> returns an error that is not an
  \<open>*exec.ExitError\<close>, \<open>wait\<close> takes the \<open>default\<close> branch of its switch, which only logs:
  the job is then not running and has a stop time, and its exit code is still
  \<open>NotTerminated\<close>. Here on the first job of a fresh controller, as \<open>Status\<close> reports it
  after the reaper has run.
\<close>

theorem status_invariant_broken_by_wait_error:
  "case Start ''alice'' ''sleep'' [''100''] 5 freshController quietWorld of
     (r, c1, w1) \<Rightarrow>
       r = Inr ''1'' \<and>
       StatusOf ''alice'' ''1'' (fst (Reap ''1'' WaitOtherError 9 c1 w1)) =
         Inr \<lparr>ID = ''1'', Command = ''sleep'', Args = [''100''], Started = 5,
              Running = False, ExitCode = - 2, Stopped = 9\<rparr>"
  by (simp add: start_defs freshController_def quietWorld_def Reap_def StatusOf_def get_def
      getStatus_def wait_fst NotTerminated_def zeroTime_def split_beta)

text \<open>
  Claim C3 (after reaping the exit code is 0, the exit status in 0..255, or \<open>-1\<close>, and
  nothing else) does not hold of the code, by the same branch of \<open>wait\<close>: for a wait error
  that is not an \<open>*exec.ExitError\<close> the exit code of a new job stays \<open>NotTerminated\<close>,
  which is none of the values of the claim.
\<close>

theorem wait_error_leaves_exit_code_not_terminated:
  "case newJob ''alice'' ''1'' ''sleep'' [''100''] \<lparr>CPUs = Finite 0 0, MemoryKiB = 0, IO = []\<rparr>
          ''/t/1'' 5 quietWorld of
     (Inl e, w1) \<Rightarrow> False
   | (Inr j, w1) \<Rightarrow>
       ExitCode (status j) = NotTerminated \<and>
       ExitCode (status (fst (wait WaitOtherError 9 j w1))) = NotTerminated \<and>
       \<not> Running (status (fst (wait WaitOtherError 9 j w1))) \<and>
       Stopped (status (fst (wait WaitOtherError 9 j w1))) = 9 \<and>
       NotTerminated \<notin> {- 1} \<union> {0..255}"
  by (simp add: start_defs quietWorld_def wait_fst NotTerminated_def)

section \<open>The Logs operation\<close>

text \<open>
  Claim C4 (Logs streams the output of the job and does not fail with Unimplemented) does
  not hold of the code: \<open>Service.Logs\<close> sends no chunk and returns the status
  \<open>Unimplemented\<close>, here for the owner of a job that was just started.
\<close>

theorem logs_returns_unimplemented:
  "case Start ''alice'' ''echo'' [''hi''] 5 freshController quietWorld of
     (r, c1, w1) \<Rightarrow>
       r = Inr ''1'' \<and> Logs c1 ''alice'' \<lparr>Id = ''1'', Follow = True\<rparr> = ([], Some Unimplemented)"
  by (simp add: start_defs freshController_def quietWorld_def Logs_def)

section \<open>Start\<close>

text \<open>
  Claim C10: \<open>Start\<close> checks the command before the shutdown flag. With an empty command
  it returns the command error and leaves the controller, its counter included, and the
  file system as they were, whatever the state of the controller; in particular after a
  shutdown.
\<close>

theorem start_empty_command:
  "Start own [] args now c w = (Inl ErrCommand, c, w) \<and>
   Start own [] args now (c\<lparr>shutDown := True\<rparr>) w = (Inl ErrCommand, c\<lparr>shutDown := True\<rparr>, w)"
  by (simp add: Start_def)

text \<open>
  Claim C5 (a failed Start consumes no ID, so that after the ids 1, 2, 3 and a Start that
  fails with the command error the next id is 4) does not hold of the code: \<open>Start\<close>
  takes the next value of the counter before it builds the job. On a machine without the
  command \<open>NOPE\<close> the fifth call returns the id 5; no job has the id 4.
\<close>

theorem failed_spawn_consumes_id:
  "case Start ''alice'' ''sleep'' [''100''] 1 freshController nopeWorld of (r1, c1, w1) \<Rightarrow>
   case Start ''alice'' ''false'' [] 2 c1 w1 of (r2, c2, w2) \<Rightarrow>
   case Start ''alice'' ''true'' [] 3 c2 w2 of (r3, c3, w3) \<Rightarrow>
   case Start ''alice'' ''NOPE'' [] 4 c3 w3 of (r4, c4, w4) \<Rightarrow>
   case Start ''alice'' ''echo'' [''hi''] 5 c4 w4 of (r5, c5, w5) \<Rightarrow>
     r1 = Inr ''1'' \<and> r2 = Inr ''2'' \<and> r3 = Inr ''3'' \<and> r4 = Inl ErrCommand \<and>
     StatusOf ''alice'' ''4'' c4 = Inl ErrJobNotFound \<and>
     r5 = Inr ''5'' \<and> r5 \<noteq> Inr ''4''"
  by (simp add: start_defs freshController_def nopeWorld_def quietWorld_def StatusOf_def get_def)

lemma fold_applyOption_maxID: "maxID (fold applyOption opts c) = maxID c"
  by (induction opts arbitrary: c) (simp_all add: applyOption_def split: Option.splits)

text \<open>
  Claim C5 as amended: the counter of a new controller is 0, so the first id is 1. A Start
  that is rejected for an empty command or for a shut down controller fails and leaves
  the counter as it was; every other Start advances the counter by one, whether or not it
  then succeeds, and a successful one returns the decimal string of the new value.
\<close>

theorem start_id_allocation:
  "(NewController opts w0 = (Inr c0, w1) \<longrightarrow> maxID c0 = 0) \<and>
   (Start own command args now c w = (r, c', w') \<longrightarrow>
      (command = [] \<or> shutDown c \<longrightarrow> (\<exists>e. r = Inl e) \<and> maxID c' = maxID c) \<and>
      (command \<noteq> [] \<and> \<not> shutDown c \<longrightarrow>
         maxID c' = maxID c + 1 \<and>
         (\<forall>jid. r = Inr jid \<longrightarrow> jid = FormatUint (unat (maxID c + 1)))))"
proof (intro conjI impI)
  assume "NewController opts w0 = (Inr c0, w1)"
  then show "maxID c0 = 0"
    by (auto simp: NewController_def Let_def fold_applyOption_maxID split: prod.splits option.splits)
next
  assume "Start own command args now c w = (r, c', w')" and "command = [] \<or> shutDown c"
  then show "\<exists>e. r = Inl e"
    by (auto simp: Start_def isShutDown_def split: if_splits)
next
  assume "Start own command args now c w = (r, c', w')" and "command = [] \<or> shutDown c"
  then show "maxID c' = maxID c"
    by (auto simp: Start_def isShutDown_def split: if_splits)
next
  assume "Start own command args now c w = (r, c', w')" and "command \<noteq> [] \<and> \<not> shutDown c"
  then show "maxID c' = maxID c + 1"
    by (auto simp: Start_def isShutDown_def Let_def add_def split: prod.splits sum.splits)
next
  assume "Start own command args now c w = (r, c', w')" and "command \<noteq> [] \<and> \<not> shutDown c"
  then show "\<forall>jid. r = Inr jid \<longrightarrow> jid = FormatUint (unat (maxID c + 1))"
    by (auto simp: Start_def isShutDown_def Let_def add_def split: prod.splits sum.splits)
qed

theorem start_id_allocation_witness:
  "fst (NewController [WithCgroup ''/t''] quietWorld) = Inr freshController \<and>
   maxID freshController = 0 \<and>
   fst (Start ''alice'' ''NOPE'' [] 4 freshController nopeWorld) = Inl ErrCommand \<and>
   maxID (fst (snd (Start ''alice'' ''NOPE'' [] 4 freshController nopeWorld))) = 1 \<and>
   fst (Start ''alice'' ''echo'' [''hi''] 5 freshController nopeWorld) = Inr ''1'' \<and>
   maxID (fst (snd (Start ''alice'' [] [] 4 freshController nopeWorld))) = 0"
proof -
  have n: "fst (NewController [WithCgroup ''/t''] quietWorld) = Inr freshController"
    by (simp add: NewController_def applyOption_def newTelejobCgroup_def Mkdir_def WriteFile_def
        quietWorld_def freshController_def Join_def)
  have s1: "fst (Start ''alice'' ''NOPE'' [] 4 freshController nopeWorld) = Inl ErrCommand"
    by (simp add: start_defs freshController_def nopeWorld_def quietWorld_def)
  have s2: "fst (Start ''alice'' ''echo'' [''hi''] 5 freshController nopeWorld) = Inr ''1''"
    by (simp add: start_defs freshController_def nopeWorld_def quietWorld_def)
  have f: "\<not> shutDown freshController" "maxID freshController = 0"
    by (simp_all add: freshController_def)
  from start_id_allocation
    [of "[WithCgroup ''/t'']" quietWorld freshController
        "snd (NewController [WithCgroup ''/t''] quietWorld)"
        "''alice''" "''NOPE''" "[]" 4 freshController nopeWorld
        "fst (Start ''alice'' ''NOPE'' [] 4 freshController nopeWorld)"
        "fst (snd (Start ''alice'' ''NOPE'' [] 4 freshController nopeWorld))"
        "snd (snd (Start ''alice'' ''NOPE'' [] 4 freshController nopeWorld))"]
  have a: "maxID (fst (snd (Start ''alice'' ''NOPE'' [] 4 freshController nopeWorld))) = 1"
    using f by simp
  from start_id_allocation
    [of "[WithCgroup ''/t'']" quietWorld freshController
        "snd (NewController [WithCgroup ''/t''] quietWorld)"
        "''alice''" "[]" "[]" 4 freshController nopeWorld
        "fst (Start ''alice'' [] [] 4 freshController nopeWorld)"
        "fst (snd (Start ''alice'' [] [] 4 freshController nopeWorld))"
        "snd (snd (Start ''alice'' [] [] 4 freshController nopeWorld))"]
  have b: "maxID (fst (snd (Start ''alice'' [] [] 4 freshController nopeWorld))) = 0"
    using f by simp
  show ?thesis using n s1 s2 a b f by simp
qed

section \<open>Shutdown\<close>

lemmas stop_defs = StopAll_def stop_def Kill_def isRunning_def Reap_def wait_def
  writeCgroupFile_def WriteFile_def deleteCgroup_def Remove_def Join_def Let_def split_beta
  numeral_3_eq_3 ProcessState_ExitCode_def ExitStatus_def Exited_def

lemma Reap_shutDown: "shutDown (fst (Reap jid r now c w)) = shutDown c"
  by (simp add: Reap_def split_beta split: option.splits)

lemma reapAll_shutDown: "shutDown (fst (reapAll waits now ids c w)) = shutDown c"
proof (induction ids arbitrary: c w)
  case Nil
  then show ?case by simp
next
  case (Cons jid rest)
  show ?case
    using Cons.IH [of "fst (Reap jid (waits jid) now c w)" "snd (Reap jid (waits jid) now c w)"]
    by (simp add: split_beta Reap_shutDown)
qed

lemma StopAll_shutDown: "shutDown (fst (snd (StopAll kills waits now c w)))"
  by (simp add: StopAll_def Let_def split_beta reapAll_shutDown split: option.splits)

lemma Start_shutDown: "shutDown (fst (snd (Start own command args now c w))) = shutDown c"
  by (simp add: Start_def isShutDown_def Let_def add_def split: prod.splits sum.splits)

lemma step_shutDown: "shutDown (fst cw) \<Longrightarrow> shutDown (fst (step ev cw))"
  by (cases ev; cases cw) (simp_all add: Start_shutDown StopAll_shutDown Reap_shutDown)

lemma run_shutDown: "shutDown (fst cw) \<Longrightarrow> shutDown (fst (run evs cw))"
  unfolding run_def by (induction evs arbitrary: cw) (simp_all add: step_shutDown)

text \<open>
  Claim C8: \<open>StopAll\<close> is terminal. Once a \<open>StopAll\<close> has returned, after any further
  calls and reapers, a \<open>Start\<close> with a command returns the shutdown error and leaves the
  controller (its jobs included) and the machine as they are, and a \<open>StopAll\<close> returns
  nil and leaves the controller and the machine, its record of the signals sent included,
  as they are, whatever \<open>Process.Kill\<close> would answer.
\<close>

theorem stopall_terminal:
  assumes "StopAll kills waits now c w = (errs, c1, w1)"
    and "run evs (c1, w1) = (c2, w2)"
  shows "(command \<noteq> [] \<longrightarrow> Start own command args t c2 w2 = (Inl ErrShutdown, c2, w2)) \<and>
         StopAll kills' waits' t' c2 w2 = ([], c2, w2)"
proof -
  have "shutDown c1"
    using StopAll_shutDown [of kills waits now c w] assms(1) by simp
  then have "shutDown c2"
    using run_shutDown [of "(c1, w1)" evs] assms(2) by simp
  then show ?thesis
    by (simp add: Start_def isShutDown_def StopAll_def)
qed

theorem stopall_terminal_witness:
  "case StopAll (\<lambda>i. KillNil) (\<lambda>i. WaitExitError (Some 9)) 7 (fst oneJob) (snd oneJob) of
     (errs, c1, w1) \<Rightarrow>
   case run [EStart ''bob'' ''ls'' [] 8, EReap ''1'' WaitNil 8, EStop ''alice'' ''1'' KillError]
          (c1, w1) of
     (c2, w2) \<Rightarrow>
       errs = [] \<and> signals w1 = [''1''] \<and> dirs w1 = {} \<and>
       Start ''alice'' ''ls'' [] 9 c2 w2 = (Inl ErrShutdown, c2, w2) \<and>
       StopAll (\<lambda>i. KillError) (\<lambda>i. WaitOtherError) 9 c2 w2 = ([], c2, w2) \<and>
       signals w2 = [''1'']"
proof -
  let ?S = "StopAll (\<lambda>i. KillNil) (\<lambda>i. WaitExitError (Some 9)) 7 (fst oneJob) (snd oneJob)"
  let ?evs = "[EStart ''bob'' ''ls'' [] 8, EReap ''1'' WaitNil 8, EStop ''alice'' ''1'' KillError]"
  let ?R = "run ?evs (fst (snd ?S), snd (snd ?S))"
  have h1: "?S = (fst ?S, fst (snd ?S), snd (snd ?S))"
    by simp
  have h2: "run ?evs (fst (snd ?S), snd (snd ?S)) = (fst ?R, snd ?R)"
    by simp
  have t: "Start ''alice'' ''ls'' [] 9 (fst ?R) (snd ?R) = (Inl ErrShutdown, fst ?R, snd ?R) \<and>
           StopAll (\<lambda>i. KillError) (\<lambda>i. WaitOtherError) 9 (fst ?R) (snd ?R) = ([], fst ?R, snd ?R)"
    using stopall_terminal [OF h1 h2, of "''ls''" "''alice''" "[]" 9
        "\<lambda>i. KillError" "\<lambda>i. WaitOtherError" 9]
    by simp
  have e: "fst ?S = []"
    by (simp add: oneJob_def start_defs freshController_def quietWorld_def stop_defs)
  have s: "signals (snd (snd ?S)) = [''1'']"
    by (simp add: oneJob_def start_defs freshController_def quietWorld_def stop_defs)
  have d: "dirs (snd (snd ?S)) = {}"
    by (simp add: oneJob_def start_defs freshController_def quietWorld_def stop_defs)
  have s2: "signals (snd ?R) = [''1'']"
    by (simp add: run_def Stop_def get_def oneJob_def start_defs freshController_def
        quietWorld_def stop_defs)
  show ?thesis
    using t e s d s2 by (simp add: split_beta)
qed

section \<open>Job cgroups\<close>

lemma writeCgroupFile_frame:
  "writeCgroupFile cg f s w = (e, w') \<Longrightarrow>
     w' = w\<lparr>writes := writes w'\<rparr> \<and> (e = None \<or> e = Some ErrCgroup)"
  by (auto simp: writeCgroupFile_def WriteFile_def split: if_splits)

lemma writeIOLimits_frame:
  "writeIOLimits cg ios w = (e, w') \<Longrightarrow>
     w' = w\<lparr>writes := writes w'\<rparr> \<and> (e = None \<or> e = Some ErrCgroup)"
proof (induction ios arbitrary: w)
  case Nil
  then show ?case by simp
next
  case (Cons a ios)
  obtain e1 w1 where a: "writeCgroupFile cg ''io.max'' a w = (e1, w1)"
    by (cases "writeCgroupFile cg ''io.max'' a w")
  note f = writeCgroupFile_frame [OF a]
  show ?case
  proof (cases e1)
    case None
    with Cons.prems a have "writeIOLimits cg ios w1 = (e, w')" by simp
    from Cons.IH [OF this] f show ?thesis
      by (metis world.surjective world.update_convs(2))
  next
    case (Some x)
    with Cons.prems a f show ?thesis by auto
  qed
qed

lemma writeLimits_frame:
  "writeLimits cg lims w = (e, w') \<Longrightarrow>
     w' = w\<lparr>writes := writes w'\<rparr> \<and> (e = None \<or> e = Some ErrCgroup)"
proof -
  assume a: "writeLimits cg lims w = (e, w')"
  obtain e1 w1 where c1:
    "(if gt_zero (CPUs lims) then writeCgroupFile cg ''cpu.max'' (cpuContent lims) w else (None, w)) = (e1, w1)"
    by (cases "if gt_zero (CPUs lims) then writeCgroupFile cg ''cpu.max'' (cpuContent lims) w else (None, w)")
  have f1: "w1 = w\<lparr>writes := writes w1\<rparr> \<and> (e1 = None \<or> e1 = Some ErrCgroup)"
    using c1 writeCgroupFile_frame [of cg "''cpu.max''" "cpuContent lims" w e1 w1]
    by (auto split: if_splits)
  obtain e2 w2 where c2:
    "(if 0 < MemoryKiB lims then writeCgroupFile cg ''memory.max'' (memoryContent lims) w1 else (None, w1)) = (e2, w2)"
    by (cases "if 0 < MemoryKiB lims then writeCgroupFile cg ''memory.max'' (memoryContent lims) w1 else (None, w1)")
  have f2: "w2 = w1\<lparr>writes := writes w2\<rparr> \<and> (e2 = None \<or> e2 = Some ErrCgroup)"
    using c2 writeCgroupFile_frame [of cg "''memory.max''" "memoryContent lims" w1 e2 w2]
    by (auto split: if_splits)
  obtain e3 w3 where c3: "writeIOLimits cg (IO lims) w2 = (e3, w3)"
    by (cases "writeIOLimits cg (IO lims) w2")
  note f3 = writeIOLimits_frame [OF c3]
  have w12: "w2 = w\<lparr>writes := writes w2\<rparr>"
    using f1 f2 by (metis world.surjective world.update_convs(2))
  have w13: "w3 = w\<lparr>writes := writes w3\<rparr>"
    using w12 f3 by (metis world.surjective world.update_convs(2))
  show ?thesis
  proof (cases e1)
    case (Some x)
    then show ?thesis using a c1 f1 unfolding writeLimits_def by auto
  next
    case None
    note n1 = this
    show ?thesis
    proof (cases e2)
      case (Some y)
      then show ?thesis using a c1 c2 n1 f2 w12 unfolding writeLimits_def by auto
    next
      case None
      then show ?thesis using a c1 c2 c3 n1 f3 w13 unfolding writeLimits_def by auto
    qed
  qed
qed

lemma writeCgroupFile_ok:
  "writeCgroupFile cg f s w = (None, w') \<Longrightarrow> w' = w\<lparr>writes := writes w @ [(Join cg f, s)]\<rparr>"
  by (auto simp: writeCgroupFile_def WriteFile_def split: if_splits)

lemma writeIOLimits_ok:
  "writeIOLimits cg ios w = (None, w') \<Longrightarrow>
     w' = w\<lparr>writes := writes w @ map (\<lambda>l. (Join cg ''io.max'', l)) ios\<rparr>"
proof (induction ios arbitrary: w)
  case Nil
  then show ?case by simp
next
  case (Cons a ios)
  obtain e1 w1 where a: "writeCgroupFile cg ''io.max'' a w = (e1, w1)"
    by (cases "writeCgroupFile cg ''io.max'' a w")
  with Cons.prems have e1: "e1 = None" and r: "writeIOLimits cg ios w1 = (None, w')"
    by (auto split: option.splits)
  from a e1 have "w1 = w\<lparr>writes := writes w @ [(Join cg ''io.max'', a)]\<rparr>"
    by (simp add: writeCgroupFile_ok)
  with Cons.IH [OF r] show ?case by simp
qed

lemma writeLimits_ok:
  assumes "writeLimits cg lims w = (None, w')"
  shows "w' = w\<lparr>writes := writes w
            @ (if gt_zero (CPUs lims) then [(Join cg ''cpu.max'', cpuContent lims)] else [])
            @ (if 0 < MemoryKiB lims then [(Join cg ''memory.max'', memoryContent lims)] else [])
            @ map (\<lambda>l. (Join cg ''io.max'', l)) (IO lims)\<rparr>"
proof -
  obtain e1 w1 where c1:
    "(if gt_zero (CPUs lims) then writeCgroupFile cg ''cpu.max'' (cpuContent lims) w else (None, w)) = (e1, w1)"
    by (cases "if gt_zero (CPUs lims) then writeCgroupFile cg ''cpu.max'' (cpuContent lims) w else (None, w)")
  obtain e2 w2 where c2:
    "(if 0 < MemoryKiB lims then writeCgroupFile cg ''memory.max'' (memoryContent lims) w1 else (None, w1)) = (e2, w2)"
    by (cases "if 0 < MemoryKiB lims then writeCgroupFile cg ''memory.max'' (memoryContent lims) w1 else (None, w1)")
  have e1: "e1 = None"
    using assms c1 unfolding writeLimits_def by (auto split: option.splits)
  have e2: "e2 = None" and c3: "writeIOLimits cg (IO lims) w2 = (None, w')"
    using assms c1 c2 e1 unfolding writeLimits_def by (auto split: option.splits)
  have f1: "w1 = w\<lparr>writes := writes w @ (if gt_zero (CPUs lims) then [(Join cg ''cpu.max'', cpuContent lims)] else [])\<rparr>"
    using c1 e1 by (auto dest: writeCgroupFile_ok split: if_splits)
  have f2: "w2 = w1\<lparr>writes := writes w1 @ (if 0 < MemoryKiB lims then [(Join cg ''memory.max'', memoryContent lims)] else [])\<rparr>"
    using c2 e2 by (auto dest: writeCgroupFile_ok split: if_splits)
  show ?thesis
    using writeIOLimits_ok [OF c3] f1 f2 by simp
qed

lemma newJobCgroup_ok:
  assumes "newJobCgroup cg lims w = (None, w')"
  shows "w' = w\<lparr>dirs := insert cg (dirs w), writes := writes w
            @ (if gt_zero (CPUs lims) then [(Join cg ''cpu.max'', cpuContent lims)] else [])
            @ (if 0 < MemoryKiB lims then [(Join cg ''memory.max'', memoryContent lims)] else [])
            @ map (\<lambda>l. (Join cg ''io.max'', l)) (IO lims)\<rparr>"
proof -
  obtain e0 w0 where m: "Mkdir cg w = (e0, w0)" by (cases "Mkdir cg w")
  obtain e1 w1 where l: "writeLimits cg lims w0 = (e1, w1)" by (cases "writeLimits cg lims w0")
  from assms m have e0: "e0 = None"
    by (auto simp: newJobCgroup_def split: option.splits)
  with assms m l have e1: "e1 = None" and w1: "w1 = w'"
    by (auto simp: newJobCgroup_def deleteCgroupOnErr_def split: if_splits)
  from m e0 have "w0 = w\<lparr>dirs := insert cg (dirs w)\<rparr>"
    by (auto simp: Mkdir_def split: if_splits)
  with writeLimits_ok [of cg lims w0 w'] l e1 w1 show ?thesis by simp
qed

lemma memoryContent_mod:
  "memoryContent lims = FormatUint (unat (MemoryKiB lims) * 1024 mod 2 ^ 64) @ [CHR 0x0A]"
  by (simp add: memoryContent_def unat_word_ariths)

lemma trunc_f64_floor:
  assumes "0 \<le> m"
  shows "trunc_f64 (Finite m e) = Some \<lfloor>valof (Finite m e)\<rfloor>"
proof (cases "0 \<le> e")
  case True
  then have "(2::real) powr real_of_int e = 2 ^ nat e"
    by (simp add: powr_realpow [symmetric])
  then have "valof (Finite m e) = real_of_int (m * 2 ^ nat e)"
    by (simp add: valof_def)
  then show ?thesis using True by (simp add: trunc_f64_def del: of_int_mult of_int_power)
next
  case False
  then have "(2::real) powr real_of_int e = 1 / 2 ^ nat (- e)"
  proof -
    have "real_of_int e = - real (nat (- e))" using False by simp
    then have "(2::real) powr real_of_int e = 1 / (2 powr real (nat (- e)))"
      by (simp only: powr_minus_divide)
    then show ?thesis by (simp add: powr_realpow)
  qed
  then have "valof (Finite m e) = real_of_int m / real_of_int (2 ^ nat (- e))"
    by (simp add: valof_def)
  then have "\<lfloor>valof (Finite m e)\<rfloor> = m div 2 ^ nat (- e)"
    by (simp only: floor_divide_of_int_eq)
  then show ?thesis using False assms by (simp add: trunc_f64_def)
qed

lemma round_f64_nonneg:
  "round_f64 False p e = Finite m' e' \<Longrightarrow> 0 \<le> m'"
  by (auto simp: round_f64_def Let_def split: if_splits)

lemma mul_100000_nonneg:
  assumes "gt_zero x" and "mul_100000 x = Finite m' e'"
  shows "0 \<le> m'"
proof (cases x)
  case (Finite m e)
  with assms(1) have "\<not> m < 0" by (simp add: gt_zero_def)
  with assms(2) Finite show ?thesis
    by (auto simp: mul_100000_def dest: round_f64_nonneg)
qed (use assms in \<open>auto simp: mul_100000_def\<close>)

lemma cpuContent_floor:
  assumes "gt_zero (CPUs lims)" and "mul_100000 (CPUs lims) = Finite m e"
    and "valof (Finite m e) < 2 ^ 63"
  shows "cpuContent lims = FormatUint (nat \<lfloor>valof (Finite m e)\<rfloor>) @ [CHR 0x0A]"
proof -
  have m: "0 \<le> m" by (rule mul_100000_nonneg [OF assms(1,2)])
  then have v: "0 \<le> valof (Finite m e)" by (simp add: valof_def)
  have t: "trunc_f64 (Finite m e) = Some \<lfloor>valof (Finite m e)\<rfloor>"
    by (rule trunc_f64_floor [OF m])
  have lo: "0 \<le> \<lfloor>valof (Finite m e)\<rfloor>" using v by simp
  have hi: "\<lfloor>valof (Finite m e)\<rfloor> < 2 ^ 63"
    using assms(3) by (simp add: floor_less_iff)
  show ?thesis
    using t lo hi assms(2) by (simp add: cpuContent_def int_of_float64_def FormatInt_def)
qed

lemma bitlen_bound: "n < 2 ^ k \<Longrightarrow> bitlen n \<le> k"
proof (induction k arbitrary: n)
  case 0
  then show ?case by (simp add: bitlen.simps)
next
  case (Suc k)
  then have "n div 2 < 2 ^ k" by simp
  from Suc.IH [OF this] show ?case by (subst bitlen.simps) simp
qed

lemma mul_100000_exact:
  assumes "0 < m" and "m * 100000 < 2 ^ 53" and "- 1074 \<le> e" and "e \<le> 0"
  shows "mul_100000 (Finite m e) = Finite (m * 100000) e"
proof -
  have "nat \<bar>m\<bar> * 100000 < 2 ^ 53"
    using assms(1,2) by (simp add: nat_less_iff nat_mult_distrib)
  then have b: "bitlen (nat \<bar>m\<bar> * 100000) \<le> 53" by (rule bitlen_bound)
  then have k: "nat (max (int (bitlen (nat \<bar>m\<bar> * 100000)) - 53) (- 1074 - e)) = 0"
    using assms(3) by simp
  have q: "int (nat \<bar>m\<bar> * 100000) = m * 100000" using assms(1) by simp
  show ?thesis
    using assms b q by (simp add: mul_100000_def round_f64_def k round_shift_def Let_def del: of_nat_mult)
qed

lemma cpuContent_exact:
  assumes "CPUs lims = Finite m e" and "0 < m" and "m * 100000 < 2 ^ 53"
    and "- 1074 \<le> e" and "e \<le> 0"
  shows "cpuContent lims = FormatUint (nat \<lfloor>valof (CPUs lims) * 100000\<rfloor>) @ [CHR 0x0A]"
proof -
  have mu: "mul_100000 (CPUs lims) = Finite (m * 100000) e"
    using assms by (simp add: mul_100000_exact)
  have "(2::real) powr real_of_int e \<le> 1"
    using powr_mono [of "real_of_int e" 0 2] assms(5) by simp
  then have "real_of_int (m * 100000) * 2 powr real_of_int e \<le> real_of_int (m * 100000)"
    using assms(2) by (simp add: mult_left_le)
  also have "\<dots> < 2 ^ 53" using assms(3) by (metis of_int_less_numeral_power_cancel_iff)
  also have "\<dots> < (2::real) ^ 63" by simp
  finally have r: "valof (Finite (m * 100000) e) < 2 ^ 63" by (simp add: valof_def)
  have g: "gt_zero (CPUs lims)" using assms(1,2) by (simp add: gt_zero_def)
  have "valof (Finite (m * 100000) e) = valof (CPUs lims) * 100000"
    using assms(1) by (simp add: valof_def)
  with cpuContent_floor [OF g mu r] show ?thesis by simp
qed

text \<open>
  Claim C6 (the string written to \<open>memory.max\<close> is \<open>memory_kib * 1024\<close>) does not
  hold of the code for every limit: the product is taken in \<open>uint64\<close> and wraps. For
  \<open>memory_kib = 2 ^ 54\<close> the code writes \<open>0\<close>, where the claim has
  \<open>18446744073709551616\<close>.
\<close>

theorem memory_limit_wraps:
  "fst (newJobCgroup ''/t/1'' \<lparr>CPUs = Finite 0 0, MemoryKiB = 18014398509481984, IO = []\<rparr> quietWorld) = None \<and>
   writes (snd (newJobCgroup ''/t/1'' \<lparr>CPUs = Finite 0 0, MemoryKiB = 18014398509481984, IO = []\<rparr> quietWorld))
     = [(''/t/1/memory.max'', ''0\<newline>'')] \<and>
   FormatUint (18014398509481984 * 1024) = ''18446744073709551616''"
  by (simp add: newJobCgroup_def Mkdir_def writeLimits_def gt_zero_def writeCgroupFile_def WriteFile_def
      quietWorld_def memoryContent_def deleteCgroupOnErr_def Join_def FormatUint.simps digit_def)

text \<open>
  Claim C6 as amended: when the cgroup of a job is created, the writes are, in this order,
  one to \<open>cpu.max\<close> if the cpu limit is positive, one to \<open>memory.max\<close> if the memory limit
  is positive, and one to \<open>io.max\<close> for each entry of the io limits, and no other. The
  string for \<open>memory.max\<close> is the decimal of \<open>memory_kib * 1024\<close> modulo \<open>2 ^ 64\<close> and
  a newline. The string for \<open>cpu.max\<close> is the decimal of the floor of the \<open>float64\<close>
  product \<open>cpus * 100000\<close> and a newline, when that product is below \<open>2 ^ 63\<close>; the
  product is the exact one for a limit \<open>m * 2 ^ e\<close> with \<open>e \<le> 0\<close> and
  \<open>m * 100000 < 2 ^ 53\<close>.
\<close>

theorem job_cgroup_writes:
  assumes "newJobCgroup cg lims w = (None, w')"
  shows "writes w' = writes w
            @ (if gt_zero (CPUs lims) then [(Join cg ''cpu.max'', cpuContent lims)] else [])
            @ (if 0 < MemoryKiB lims then [(Join cg ''memory.max'', memoryContent lims)] else [])
            @ map (\<lambda>l. (Join cg ''io.max'', l)) (IO lims) \<and>
         memoryContent lims = FormatUint (unat (MemoryKiB lims) * 1024 mod 2 ^ 64) @ ''\<newline>'' \<and>
         (gt_zero (CPUs lims) \<and> mul_100000 (CPUs lims) = Finite m e \<and> valof (Finite m e) < 2 ^ 63 \<longrightarrow>
            cpuContent lims = FormatUint (nat \<lfloor>valof (Finite m e)\<rfloor>) @ ''\<newline>'') \<and>
         (CPUs lims = Finite m0 e0 \<and> 0 < m0 \<and> m0 * 100000 < 2 ^ 53 \<and> - 1074 \<le> e0 \<and> e0 \<le> 0 \<longrightarrow>
            cpuContent lims = FormatUint (nat \<lfloor>valof (CPUs lims) * 100000\<rfloor>) @ ''\<newline>'')"
proof (intro conjI impI)
  show "writes w' = writes w
            @ (if gt_zero (CPUs lims) then [(Join cg ''cpu.max'', cpuContent lims)] else [])
            @ (if 0 < MemoryKiB lims then [(Join cg ''memory.max'', memoryContent lims)] else [])
            @ map (\<lambda>l. (Join cg ''io.max'', l)) (IO lims)"
    by (subst newJobCgroup_ok [OF assms]) simp
next
  show "memoryContent lims = FormatUint (unat (MemoryKiB lims) * 1024 mod 2 ^ 64) @ ''\<newline>''"
    using memoryContent_mod [of lims] by simp
next
  assume "gt_zero (CPUs lims) \<and> mul_100000 (CPUs lims) = Finite m e \<and> valof (Finite m e) < 2 ^ 63"
  then show "cpuContent lims = FormatUint (nat \<lfloor>valof (Finite m e)\<rfloor>) @ ''\<newline>''"
    using cpuContent_floor [of lims m e] by simp
next
  assume "CPUs lims = Finite m0 e0 \<and> 0 < m0 \<and> m0 * 100000 < 2 ^ 53 \<and> - 1074 \<le> e0 \<and> e0 \<le> 0"
  then show "cpuContent lims = FormatUint (nat \<lfloor>valof (CPUs lims) * 100000\<rfloor>) @ ''\<newline>''"
    using cpuContent_exact [of lims m0 e0] by simp
qed

lemma FormatUint_50000: "FormatUint 50000 = ''50000''"
  by (simp add: FormatUint.simps digit_def)

lemma FormatUint_1024000: "FormatUint 1024000 = ''1024000''"
  by (simp add: FormatUint.simps digit_def)

theorem job_cgroup_writes_witness:
  "fst (newJobCgroup ''/t/1'' (limits limitsController) quietWorld) = None \<and>
   writes (snd (newJobCgroup ''/t/1'' (limits limitsController) quietWorld)) =
     [(''/t/1/cpu.max'', ''50000\<newline>''), (''/t/1/memory.max'', ''1024000\<newline>''),
      (''/t/1/io.max'', ''252:1 rbps=1000000'')]"
proof -
  let ?L = "limits limitsController"
  let ?N = "newJobCgroup ''/t/1'' ?L quietWorld"
  have ok: "fst ?N = None"
    by (simp add: newJobCgroup_def Mkdir_def writeLimits_def gt_zero_def writeCgroupFile_def
        WriteFile_def quietWorld_def deleteCgroupOnErr_def limitsController_def)
  then have h: "?N = (None, snd ?N)" by (metis prod.collapse)
  have L: "CPUs ?L = Finite 1 (- 1)" "MemoryKiB ?L = 1000" "IO ?L = [''252:1 rbps=1000000'']"
    by (simp_all add: limitsController_def)
  have v: "nat \<lfloor>valof (Finite 1 (- 1)) * 100000\<rfloor> = 50000"
    by (simp add: valof_def powr_neg_one)
  note t = job_cgroup_writes [OF h, of 100000 "- 1" 1 "- 1"]
  have c: "cpuContent ?L = ''50000\<newline>''"
    using t L by (simp add: v FormatUint_50000)
  have m: "memoryContent ?L = ''1024000\<newline>''"
    using t L by (simp add: FormatUint_1024000)
  have "writes (snd ?N) = [(''/t/1/cpu.max'', ''50000\<newline>''), (''/t/1/memory.max'', ''1024000\<newline>''),
      (''/t/1/io.max'', ''252:1 rbps=1000000'')]"
    using t c m L by (simp add: gt_zero_def quietWorld_def Join_def)
  with ok show ?thesis by simp
qed

lemma newJobCgroup_after_Mkdir:
  assumes "Mkdir cg w = (None, w0)" and "writeLimits cg lims w0 = (lerr, w1)"
  shows "newJobCgroup cg lims w = (lerr, deleteCgroupOnErr cg lerr w1)"
  using assms by (simp add: newJobCgroup_def)

text \<open>
  Claim C7: a \<open>Start\<close> that has made the cgroup directory of its job and then fails at a
  limit write, or at the spawn, returns the cgroup error for the write and the command
  error for the spawn, registers no job, and ends with the deletion of the directory,
  after which the directory is gone unless the deletion itself fails.
\<close>

theorem failed_construction_rolls_back:
  assumes "command \<noteq> []" and "\<not> shutDown c"
    and "cg = Join (telejobCgroup c) (FormatUint (unat (maxID c + 1)))"
    and "Mkdir cg w = (None, w0)"
    and "writeLimits cg (limits c) w0 = (lerr, w1)"
    and "lerr \<noteq> None \<or> (\<not> open_fails w1 cg \<and> start_fails w1 command args)"
    and "Start own command args now c w = (r, c', w')"
  shows "r = Inl (if lerr \<noteq> None then ErrCgroup else ErrCommand) \<and>
         jobs c' = jobs c \<and>
         w' = snd (deleteCgroup cg w1) \<and>
         (\<not> stat_fails w cg \<and> busy w cg = 0 \<and> \<not> remove_fails w cg \<longrightarrow> cg \<notin> dirs w')"
proof -
  have w0: "w0 = w\<lparr>dirs := insert cg (dirs w)\<rparr>"
    using assms(4) by (auto simp: Mkdir_def split: if_splits)
  have fr: "w1 = w0\<lparr>writes := writes w1\<rparr>" and le: "lerr = None \<or> lerr = Some ErrCgroup"
    using writeLimits_frame [OF assms(5)] by auto
  have w1: "w1 = w\<lparr>dirs := insert cg (dirs w), writes := writes w1\<rparr>"
    using w0 fr by simp
  have dirs1: "cg \<in> dirs w1" and or1: "stat_fails w1 = stat_fails w" "busy w1 = busy w" "remove_fails w1 = remove_fails w"
    by (subst w1, simp)+
  have nj: "newJobCgroup cg (limits c) w = (lerr, deleteCgroupOnErr cg lerr w1)"
    by (rule newJobCgroup_after_Mkdir [OF assms(4) assms(5)])
  have del: "\<not> stat_fails w cg \<and> busy w cg = 0 \<and> \<not> remove_fails w cg \<longrightarrow> cg \<notin> dirs (snd (deleteCgroup cg w1))"
    using dirs1 or1 by (simp add: deleteCgroup_def Remove_def)
  have st: "Start own command args now c w =
        (case newJob own (FormatUint (unat (maxID c + 1))) command args (limits c) cg now w of
             (Inl e, w') \<Rightarrow> (Inl e, c\<lparr>maxID := maxID c + 1\<rparr>, w')
           | (Inr j, w') \<Rightarrow> (Inr (FormatUint (unat (maxID c + 1))), add (FormatUint (unat (maxID c + 1))) j (c\<lparr>maxID := maxID c + 1\<rparr>), w'))"
    using assms(1,2,3) by (simp add: Start_def isShutDown_def Let_def split: prod.splits sum.splits)
  have nc: "newStartedCmd (FormatUint (unat (maxID c + 1))) command args (limits c) cg w =
       (Inl (if lerr \<noteq> None then ErrCgroup else ErrCommand), snd (deleteCgroup cg w1))"
    using nj le assms(6) dirs1 by (auto simp: newStartedCmd_def deleteCgroupOnErr_def)
  have "Start own command args now c w =
       (Inl (if lerr \<noteq> None then ErrCgroup else ErrCommand), c\<lparr>maxID := maxID c + 1\<rparr>, snd (deleteCgroup cg w1))"
    by (simp add: st newJob_def nc)
  with assms(7) del show ?thesis by auto
qed

theorem failed_construction_rolls_back_witness:
  "fst (Start ''alice'' ''sleep'' [''100''] 5 limitsController ioFailWorld) = Inl ErrCgroup \<and>
   jobs (fst (snd (Start ''alice'' ''sleep'' [''100''] 5 limitsController ioFailWorld))) = [] \<and>
   ''/t/1'' \<notin> dirs (snd (snd (Start ''alice'' ''sleep'' [''100''] 5 limitsController ioFailWorld))) \<and>
   fst (Start ''alice'' ''NOPE'' [] 5 freshController nopeWorld) = Inl ErrCommand \<and>
   jobs (fst (snd (Start ''alice'' ''NOPE'' [] 5 freshController nopeWorld))) = [] \<and>
   ''/t/1'' \<notin> dirs (snd (snd (Start ''alice'' ''NOPE'' [] 5 freshController nopeWorld)))"
proof -
  let ?S1 = "Start ''alice'' ''sleep'' [''100''] 5 limitsController ioFailWorld"
  let ?M1 = "Mkdir ''/t/1'' ioFailWorld"
  let ?L1 = "writeLimits ''/t/1'' (limits limitsController) (snd ?M1)"
  have a1: "\<not> shutDown limitsController"
    by (simp add: limitsController_def freshController_def)
  have a2: "''/t/1'' = Join (telejobCgroup limitsController) (FormatUint (unat (maxID limitsController + 1)))"
    by (simp add: limitsController_def freshController_def Join_def FormatUint_small digit_simps)
  have a3: "?M1 = (None, snd ?M1)"
    by (simp add: Mkdir_def ioFailWorld_def quietWorld_def)
  have a4: "?L1 = (fst ?L1, snd ?L1)" by simp
  have a5: "fst ?L1 = Some ErrCgroup"
    by (simp add: Mkdir_def ioFailWorld_def quietWorld_def writeLimits_def gt_zero_def
        writeCgroupFile_def WriteFile_def Join_def limitsController_def)
  have a6: "fst ?L1 \<noteq> None \<or>
      (\<not> open_fails (snd ?L1) ''/t/1'' \<and> start_fails (snd ?L1) ''sleep'' [''100''])"
    using a5 by simp
  have a7: "?S1 = (fst ?S1, fst (snd ?S1), snd (snd ?S1))" by simp
  have o1: "\<not> stat_fails ioFailWorld ''/t/1'' \<and> busy ioFailWorld ''/t/1'' = 0 \<and>
            \<not> remove_fails ioFailWorld ''/t/1''"
    by (simp add: ioFailWorld_def quietWorld_def)
  have j1: "jobs limitsController = []"
    by (simp add: limitsController_def freshController_def)
  have a0: "''sleep'' \<noteq> []" by simp
  note t1 = failed_construction_rolls_back [OF a0 a1 a2 a3 a4 a6 a7]
  have r1a: "fst ?S1 = Inl ErrCgroup" using t1 a5 by simp
  have r1b: "jobs (fst (snd ?S1)) = []" using t1 j1 by simp
  have r1c: "''/t/1'' \<notin> dirs (snd (snd ?S1))" using t1 o1 by blast
  let ?S2 = "Start ''alice'' ''NOPE'' [] 5 freshController nopeWorld"
  let ?M2 = "Mkdir ''/t/1'' nopeWorld"
  let ?L2 = "writeLimits ''/t/1'' (limits freshController) (snd ?M2)"
  have b1: "\<not> shutDown freshController"
    by (simp add: freshController_def)
  have b2: "''/t/1'' = Join (telejobCgroup freshController) (FormatUint (unat (maxID freshController + 1)))"
    by (simp add: freshController_def Join_def FormatUint_small digit_simps)
  have b3: "?M2 = (None, snd ?M2)"
    by (simp add: Mkdir_def nopeWorld_def quietWorld_def)
  have b4: "?L2 = (fst ?L2, snd ?L2)" by simp
  have b5: "fst ?L2 = None"
    by (simp add: Mkdir_def nopeWorld_def quietWorld_def writeLimits_def gt_zero_def
        freshController_def)
  have b6: "fst ?L2 \<noteq> None \<or>
      (\<not> open_fails (snd ?L2) ''/t/1'' \<and> start_fails (snd ?L2) ''NOPE'' [])"
    by (simp add: Mkdir_def nopeWorld_def quietWorld_def writeLimits_def gt_zero_def
        freshController_def)
  have b7: "?S2 = (fst ?S2, fst (snd ?S2), snd (snd ?S2))" by simp
  have o2: "\<not> stat_fails nopeWorld ''/t/1'' \<and> busy nopeWorld ''/t/1'' = 0 \<and>
            \<not> remove_fails nopeWorld ''/t/1''"
    by (simp add: nopeWorld_def quietWorld_def)
  have j2: "jobs freshController = []"
    by (simp add: freshController_def)
  have b0: "''NOPE'' \<noteq> []" by simp
  note t2 = failed_construction_rolls_back [OF b0 b1 b2 b3 b4 b6 b7]
  have r2a: "fst ?S2 = Inl ErrCommand" using t2 b5 by simp
  have r2b: "jobs (fst (snd ?S2)) = []" using t2 j2 by simp
  have r2c: "''/t/1'' \<notin> dirs (snd (snd ?S2))" using t2 o2 by blast
  show ?thesis using r1a r1b r1c r2a r2b r2c by simp
qed

end
